theory Spec2Isabelle
  imports Complex_Main
begin

section \<open>Python values, exceptions and string formatting\<close>

text \<open>
  The module \<^verbatim>\<open>octoprint/job/__init__.py\<close> is Python 2 code: it starts with
  \<^verbatim>\<open>from __future__ import absolute_import, unicode_literals\<close> (no \<^verbatim>\<open>division\<close>) and
  declares its abstract base class with \<^verbatim>\<open>__metaclass__ = ABCMeta\<close>. The embedding follows
  Python 2: \<^verbatim>\<open>/\<close> on two integers is floor division.

  An exception is a value of type \<open>error\<close>; a method that mutates the job and may raise
  returns the job it leaves behind together with \<open>Inl\<close> the exception or \<open>Inr\<close> the
  value returned.
\<close>

datatype error =
    TypeError
  | IndexError
  | AttributeError
  | ZeroDivisionError
  | ValueError string

text \<open>
  What a job hands to a listener's handler: a text, or the job object itself
  (\<^verbatim>\<open>self\<close>), which is not a string.
\<close>

datatype pyval = PStr string | PJob

fun py_str :: "pyval \<Rightarrow> string" where
  "py_str (PStr s) = s"
| "py_str PJob = ''<octoprint.job.Printjob object>''"

text \<open>A Python number: an \<^verbatim>\<open>int\<close> or a \<^verbatim>\<open>float\<close> (floats idealised as reals).\<close>

datatype pynum = PyInt int | PyFloat real

fun num_value :: "pynum \<Rightarrow> real" where
  "num_value (PyInt i) = real_of_int i"
| "num_value (PyFloat x) = x"

text \<open>\<^verbatim>\<open>not progress\<close>: true of \<^verbatim>\<open>None\<close>, \<^verbatim>\<open>0\<close> and \<^verbatim>\<open>0.0\<close>.\<close>

fun py_not :: "pynum option \<Rightarrow> bool" where
  "py_not None = True"
| "py_not (Some n) = (num_value n = 0)"

text \<open>Python 2 \<^verbatim>\<open>a / b\<close> on two ints: floor division, \<^verbatim>\<open>ZeroDivisionError\<close> on \<open>b = 0\<close>.\<close>

definition py_div :: "int \<Rightarrow> int \<Rightarrow> error + pynum" where
  "py_div a b = (if b = 0 then Inl ZeroDivisionError else Inr (PyInt (a div b)))"

text \<open>
  \<^verbatim>\<open>fmt.format(*args)\<close> for a format whose only replacement fields are the auto-numbered
  \<^verbatim>\<open>{}\<close> (the only ones the module writes): each field takes the next argument, a field
  with no argument left raises \<^verbatim>\<open>IndexError\<close>, surplus arguments are ignored.
\<close>

fun py_format :: "string \<Rightarrow> string list \<Rightarrow> error + string" where
  "py_format [] args = Inr []"
| "py_format [c] args = Inr [c]"
| "py_format (c # d # cs) args =
     (if c = CHR ''{'' \<and> d = CHR ''}'' then
        (case args of
           [] \<Rightarrow> Inl IndexError
         | a # as \<Rightarrow> (case py_format cs as of Inl e \<Rightarrow> Inl e | Inr r \<Rightarrow> Inr (a @ r)))
      else (case py_format (d # cs) args of Inl e \<Rightarrow> Inl e | Inr r \<Rightarrow> Inr (c # r)))"

text \<open>
  \<^verbatim>\<open>fmt % arg\<close> with a single string argument, for the directives \<^verbatim>\<open>%s\<close> and \<^verbatim>\<open>%%\<close>:
  an argument that no directive consumed raises \<^verbatim>\<open>TypeError\<close> (not all arguments
  converted during string formatting), a directive with no argument left raises
  \<^verbatim>\<open>TypeError\<close> (not enough arguments).
\<close>

fun py_percent_from :: "string \<Rightarrow> string list \<Rightarrow> error + string" where
  "py_percent_from [] args = (if args = [] then Inr [] else Inl TypeError)"
| "py_percent_from [c] args =
     (if c = CHR ''%'' then Inl (ValueError ''incomplete format'')
      else (case py_percent_from [] args of Inl e \<Rightarrow> Inl e | Inr r \<Rightarrow> Inr (c # r)))"
| "py_percent_from (c # d # cs) args =
     (if c = CHR ''%'' \<and> d = CHR ''%'' then
        (case py_percent_from cs args of Inl e \<Rightarrow> Inl e | Inr r \<Rightarrow> Inr (c # r))
      else if c = CHR ''%'' \<and> d = CHR ''s'' then
        (case args of
           [] \<Rightarrow> Inl TypeError
         | a # as \<Rightarrow> (case py_percent_from cs as of Inl e \<Rightarrow> Inl e | Inr r \<Rightarrow> Inr (a @ r)))
      else if c = CHR ''%'' then Inl (ValueError ''unsupported format character'')
      else (case py_percent_from (d # cs) args of Inl e \<Rightarrow> Inl e | Inr r \<Rightarrow> Inr (c # r)))"

definition py_percent :: "string \<Rightarrow> string \<Rightarrow> error + string" where
  "py_percent fmt arg = py_percent_from fmt [arg]"

text \<open>
  \<^verbatim>\<open>sep.join(items)\<close>: an item that is not a string raises \<^verbatim>\<open>TypeError\<close>.
\<close>

fun join_strings :: "string \<Rightarrow> string list \<Rightarrow> string" where
  "join_strings sep [] = []"
| "join_strings sep [x] = x"
| "join_strings sep (x # y # ys) = x @ sep @ join_strings sep (y # ys)"

fun strings_of :: "pyval list \<Rightarrow> string list option" where
  "strings_of [] = Some []"
| "strings_of (PStr s # vs) =
     (case strings_of vs of None \<Rightarrow> None | Some ss \<Rightarrow> Some (s # ss))"
| "strings_of (PJob # vs) = None"

definition py_join :: "string \<Rightarrow> pyval list \<Rightarrow> error + string" where
  "py_join sep items =
     (case strings_of items of None \<Rightarrow> Inl TypeError | Some ss \<Rightarrow> Inr (join_strings sep ss))"


section \<open>The protocol collaborator\<close>

text \<open>
  Modelled from the spec: the protocol of \<^verbatim>\<open>octoprint.comm.protocol\<close>, which is not part of
  this module. Section 6 of the specification gives the contract the jobs use:
  \<^verbatim>\<open>registerListener(self)\<close> / \<^verbatim>\<open>unregisterListener(self)\<close>,
  \<^verbatim>\<open>startFilePrint(filename, position)\<close> and \<^verbatim>\<open>getFilePrintStatus()\<close>. The model keeps the
  listeners in registration order (this job, or another listener by number), the print
  that was started on the device, and the number of status queries issued so far.
\<close>

datatype listener_ref = ThisJob | OtherListener nat

record protocol =
  protocol_listeners :: "listener_ref list"
  file_print :: "(string \<times> int) option"
  status_queries :: nat

definition protocol_register_listener :: "listener_ref \<Rightarrow> protocol \<Rightarrow> protocol" where
  "protocol_register_listener l p = p\<lparr>protocol_listeners := protocol_listeners p @ [l]\<rparr>"

definition protocol_unregister_listener :: "listener_ref \<Rightarrow> protocol \<Rightarrow> protocol" where
  "protocol_unregister_listener l p = p\<lparr>protocol_listeners := remove1 l (protocol_listeners p)\<rparr>"

definition start_file_print :: "string \<Rightarrow> int \<Rightarrow> protocol \<Rightarrow> protocol" where
  "start_file_print name position p = p\<lparr>file_print := Some (name, position)\<rparr>"

definition get_file_print_status :: "protocol \<Rightarrow> protocol" where
  "get_file_print_status p = p\<lparr>status_queries := Suc (status_queries p)\<rparr>"


section \<open>Printjob: the base class\<close>

text \<open>
  A listener is an object with some of the handler methods \<^verbatim>\<open>on_job_started\<close>,
  \<^verbatim>\<open>on_job_done\<close>, ...; \<open>methods\<close> lists the attributes it has
  (\<^verbatim>\<open>getattr(listener, name, None)\<close> is \<open>map_of (methods l) name\<close>), each with what a
  call of it does: return, or raise.
\<close>

datatype behaviour = Returns | Raises

record listener =
  listener_id :: nat
  methods :: "(string \<times> behaviour) list"

text \<open>
  The fields of \<^verbatim>\<open>Printjob.__init__\<close> (\<^verbatim>\<open>_start\<close>, \<^verbatim>\<open>_protocol\<close>, \<^verbatim>\<open>_listeners\<close>; the
  unused \<^verbatim>\<open>_printer_profile\<close> is left out), and the two things the job does to the world
  outside it: \<open>invoked\<close>, the handler calls made so far (listener, event, arguments) in
  order, and \<open>logged\<close>, the messages written through \<^verbatim>\<open>_logger\<close>.
\<close>

record printjob =
  start :: "real option"
  protocol :: "protocol option"
  listeners :: "listener list"
  invoked :: "(nat \<times> string \<times> pyval list) list"
  logged :: "string list"

definition Printjob :: printjob where
  "Printjob = \<lparr>start = None, protocol = None, listeners = [], invoked = [], logged = []\<rparr>"

definition register_listener :: "listener \<Rightarrow> 'a printjob_scheme \<Rightarrow> 'a printjob_scheme" where
  "register_listener l j = j\<lparr>listeners := listeners j @ [l]\<rparr>"

text \<open>\<^verbatim>\<open>Printjob.process\<close>: \<open>now\<close> is what \<^verbatim>\<open>time.time()\<close> returns.\<close>

definition Printjob_process ::
  "protocol \<Rightarrow> int \<Rightarrow> real \<Rightarrow> 'a printjob_scheme \<Rightarrow> 'a printjob_scheme" where
  "Printjob_process p position now j = j\<lparr>start := Some now, protocol := Some p\<rparr>"

definition Printjob_cancel :: "'a printjob_scheme \<Rightarrow> 'a printjob_scheme" where
  "Printjob_cancel j = j"

definition Printjob_get_next :: "'a printjob_scheme \<Rightarrow> string option" where
  "Printjob_get_next j = None"

definition Printjob_get_progress :: "'a printjob_scheme \<Rightarrow> error + pynum option" where
  "Printjob_get_progress j = Inr (Some (PyFloat 0))"

text \<open>
  \<^verbatim>\<open>Printjob.get_time_estimate\<close>. The call \<^verbatim>\<open>self.get_progress()\<close> is dispatched on the
  job's class, so the method takes the class's \<open>get_progress\<close>; \<open>now\<close> is
  \<^verbatim>\<open>time.time()\<close>.
\<close>

definition Printjob_get_time_estimate ::
  "('a printjob_scheme \<Rightarrow> error + pynum option) \<Rightarrow> real \<Rightarrow> real \<Rightarrow> 'a printjob_scheme
     \<Rightarrow> error + real option" where
  "Printjob_get_time_estimate get_progress now lost_time j =
     (case start j of
        None \<Rightarrow> Inr None
      | Some started \<Rightarrow>
          (case get_progress j of
             Inl e \<Rightarrow> Inl e
           | Inr progress \<Rightarrow>
               if py_not progress then Inr None
               else Inr (Some ((now - started - lost_time) / num_value (the progress)))))"

text \<open>
  The argument of \<^verbatim>\<open>self._logger.exception(...)\<close> in \<^verbatim>\<open>notify_listeners\<close>:
  \<^verbatim>\<open>"Exception while calling {} on printjob listener {}".format(
       "{}({})".format(name, ", ".join(list(args) +
           ["{}={}".format(key, value) for key, value in kwargs.items()])))\<close>
  The keyword arguments are an association list in the order \<^verbatim>\<open>kwargs.items()\<close> gives.
\<close>

fun format_kwargs :: "(string \<times> pyval) list \<Rightarrow> error + pyval list" where
  "format_kwargs [] = Inr []"
| "format_kwargs ((key, v) # kvs) =
     (case py_format ''{}={}'' [key, py_str v] of
        Inl e \<Rightarrow> Inl e
      | Inr s \<Rightarrow> (case format_kwargs kvs of Inl e \<Rightarrow> Inl e | Inr ss \<Rightarrow> Inr (PStr s # ss)))"

definition listener_error_message ::
  "string \<Rightarrow> pyval list \<Rightarrow> (string \<times> pyval) list \<Rightarrow> error + string" where
  "listener_error_message name args kwargs =
     (case format_kwargs kwargs of
        Inl e \<Rightarrow> Inl e
      | Inr kws \<Rightarrow>
          (case py_join '', '' (args @ kws) of
             Inl e \<Rightarrow> Inl e
           | Inr joined \<Rightarrow>
               (case py_format ''{}({})'' [name, joined] of
                  Inl e \<Rightarrow> Inl e
                | Inr call \<Rightarrow>
                    py_format ''Exception while calling {} on printjob listener {}'' [call])))"

text \<open>
  \<^verbatim>\<open>Printjob.notify_listeners\<close>: the loop over \<^verbatim>\<open>self._listeners\<close>, from the listeners
  still to visit. A listener without the method is skipped. A handler that raises is
  caught by the bare \<^verbatim>\<open>except:\<close>, whose body first builds the log message; an exception
  raised while building it leaves the handler, the loop and the method.
\<close>

fun notify_loop ::
  "string \<Rightarrow> pyval list \<Rightarrow> (string \<times> pyval) list \<Rightarrow> listener list \<Rightarrow> 'a printjob_scheme
     \<Rightarrow> 'a printjob_scheme \<times> (error + unit)" where
  "notify_loop name args kwargs [] j = (j, Inr ())"
| "notify_loop name args kwargs (l # ls) j =
     (case map_of (methods l) name of
        None \<Rightarrow> notify_loop name args kwargs ls j
      | Some b \<Rightarrow>
          (let j1 = j\<lparr>invoked := invoked j @ [(listener_id l, name, args)]\<rparr> in
           case b of
             Returns \<Rightarrow> notify_loop name args kwargs ls j1
           | Raises \<Rightarrow>
               (case listener_error_message name args kwargs of
                  Inl e \<Rightarrow> (j1, Inl e)
                | Inr msg \<Rightarrow>
                    notify_loop name args kwargs ls (j1\<lparr>logged := logged j1 @ [msg]\<rparr>))))"

definition notify_listeners ::
  "string \<Rightarrow> pyval list \<Rightarrow> (string \<times> pyval) list \<Rightarrow> 'a printjob_scheme
     \<Rightarrow> 'a printjob_scheme \<times> (error + unit)" where
  "notify_listeners name args kwargs j = notify_loop name args kwargs (listeners j) j"

definition process_job_started :: "'a printjob_scheme \<Rightarrow> 'a printjob_scheme \<times> (error + unit)" where
  "process_job_started j = notify_listeners ''on_job_started'' [PJob] [] j"

definition process_job_done :: "'a printjob_scheme \<Rightarrow> 'a printjob_scheme \<times> (error + unit)" where
  "process_job_done j = notify_listeners ''on_job_done'' [PJob] [] j"

definition process_job_cancelled :: "'a printjob_scheme \<Rightarrow> 'a printjob_scheme \<times> (error + unit)" where
  "process_job_cancelled j = notify_listeners ''on_job_cancelled'' [PJob] [] j"

definition process_job_failed :: "'a printjob_scheme \<Rightarrow> 'a printjob_scheme \<times> (error + unit)" where
  "process_job_failed j = notify_listeners ''on_job_failed'' [] [] j"


text \<open>
  The handler calls of one complete dispatch of an event: one call for each listener that
  has the method, in registration order.
\<close>

definition handler_calls ::
  "string \<Rightarrow> pyval list \<Rightarrow> listener list \<Rightarrow> (nat \<times> string \<times> pyval list) list" where
  "handler_calls name args ls =
     map (\<lambda>l. (listener_id l, name, args)) (filter (\<lambda>l. map_of (methods l) name \<noteq> None) ls)"


section \<open>Files\<close>

text \<open>
  Modelled from the spec: \<^verbatim>\<open>bom_aware_open\<close> and \<^verbatim>\<open>to_unicode\<close> of \<^verbatim>\<open>octoprint.util\<close>,
  which are not part of this module, and the file object they give. Section 4.3 of the
  specification: the job "opens the backing file for reading with the declared encoding",
  "seeks to that byte offset before the first read", "pulls one line at a time" and takes
  the "current file offset". An open file is its contents (ASCII text without a byte
  order mark, so that decoding changes nothing and \<^verbatim>\<open>to_unicode\<close> is the identity) and
  the offset of the next byte to read; \<^verbatim>\<open>readline\<close> returns the bytes up to and including
  the next line feed, and the empty string at the end of the file.
\<close>

record file_handle =
  data :: string
  pos :: nat

definition bom_aware_open :: "string \<Rightarrow> file_handle" where
  "bom_aware_open contents = \<lparr>data = contents, pos = 0\<rparr>"

definition seek :: "nat \<Rightarrow> file_handle \<Rightarrow> file_handle" where
  "seek offset h = h\<lparr>pos := offset\<rparr>"

definition tell :: "file_handle \<Rightarrow> int" where
  "tell h = int (pos h)"

fun first_line :: "string \<Rightarrow> string" where
  "first_line [] = []"
| "first_line (c # cs) = (if c = CHR 0x0A then [c] else c # first_line cs)"

definition readline :: "file_handle \<Rightarrow> string \<times> file_handle" where
  "readline h =
     (let line = first_line (drop (pos h) (data h)) in (line, h\<lparr>pos := pos h + length line\<rparr>))"

definition to_unicode :: "string \<Rightarrow> string" where
  "to_unicode s = s"


section \<open>LocalFilePrintjob and its subclasses\<close>

text \<open>
  The fields \<^verbatim>\<open>_path\<close>, \<^verbatim>\<open>_encoding\<close>, \<^verbatim>\<open>_size\<close> (here \<open>file_size\<close>) and \<^verbatim>\<open>_handle\<close>.
  The constructor and \<^verbatim>\<open>process\<close> take \<open>contents\<close>, what the file at \<^verbatim>\<open>path\<close> holds when
  \<^verbatim>\<open>os.stat\<close> measures it and when it is opened.
\<close>

record localfile = printjob +
  path :: string
  encoding :: string
  file_size :: int
  handle :: "file_handle option"

definition LocalFilePrintjob :: "string \<Rightarrow> string \<Rightarrow> string \<Rightarrow> localfile" where
  "LocalFilePrintjob file_path file_encoding contents =
     \<lparr>start = None, protocol = None, listeners = [], invoked = [], logged = [],
      path = file_path, encoding = file_encoding, file_size = int (length contents),
      handle = None\<rparr>"

definition LocalFilePrintjob_process ::
  "string \<Rightarrow> protocol \<Rightarrow> int \<Rightarrow> real \<Rightarrow> localfile \<Rightarrow> localfile" where
  "LocalFilePrintjob_process contents p position now j =
     (let j1 = Printjob_process p position now j;
          j2 = j1\<lparr>handle := Some (bom_aware_open contents)\<rparr>
      in if position > 0 then j2\<lparr>handle := map_option (seek (nat position)) (handle j2)\<rparr>
         else j2)"

text \<open>\<^verbatim>\<open>close\<close>: an error of \<^verbatim>\<open>self._handle.close()\<close> is swallowed; the handle is dropped.\<close>

definition close :: "localfile \<Rightarrow> localfile" where
  "close j = j\<lparr>handle := None\<rparr>"

text \<open>
  \<^verbatim>\<open>process_line\<close> of the three classes; \<open>None\<close> is Python's \<^verbatim>\<open>None\<close>, which none of
  them returns.
\<close>

definition LocalFilePrintjob_process_line :: "string \<Rightarrow> string option" where
  "LocalFilePrintjob_process_line line = Some line"

definition LocalGcodeFilePrintjob_process_line :: "string \<Rightarrow> string option" where
  "LocalGcodeFilePrintjob_process_line line = (let processed = line in Some processed)"

definition LocalGcodeStreamjob_process_line :: "string \<Rightarrow> string option" where
  "LocalGcodeStreamjob_process_line line = Some line"

text \<open>
  The body of one pass of the \<^verbatim>\<open>while processed is None\<close> loop of \<^verbatim>\<open>get_next\<close> after the
  line was read: at the end of the file (\<^verbatim>\<open>not line\<close>) notify \<^verbatim>\<open>on_job_done\<close> and close.
\<close>

definition at_line :: "string \<Rightarrow> localfile \<Rightarrow> localfile \<times> (error + unit)" where
  "at_line line j =
     (if line = [] then
        (case notify_listeners ''on_job_done'' [PJob] [] j of
           (j1, Inl e) \<Rightarrow> (j1, Inl e)
         | (j1, Inr u) \<Rightarrow> (close j1, Inr ()))
      else (j, Inr ()))"

text \<open>The number of passes the loop can still make: bytes left to read, plus one.\<close>

definition passes_left :: "localfile \<Rightarrow> nat" where
  "passes_left j = (case handle j of None \<Rightarrow> 0 | Some h \<Rightarrow> Suc (length (data h) - pos h))"

lemma first_line_length: "length (first_line s) \<le> length s"
  by (induction s) auto

lemma first_line_empty: "first_line s = [] \<longleftrightarrow> s = []"
  by (cases s) auto

lemma notify_loop_handle:
  "handle (fst (notify_loop name args kwargs ls j)) = handle j"
  by (induction ls arbitrary: j)
     (auto simp: Let_def split: option.splits behaviour.splits sum.splits)

lemma notify_listeners_handle:
  "handle (fst (notify_listeners name args kwargs j)) = handle j"
  by (simp add: notify_listeners_def notify_loop_handle)

function get_next_loop ::
  "(string \<Rightarrow> string option) \<Rightarrow> localfile \<Rightarrow> localfile \<times> (error + string option)" where
  "get_next_loop process_line j =
     (case handle j of
        None \<Rightarrow> (j, Inr None)
      | Some h \<Rightarrow>
          (let line = to_unicode (fst (readline h));
               j1 = j\<lparr>handle := Some (snd (readline h))\<rparr>
           in case at_line line j1 of
                (j2, Inl e) \<Rightarrow> (j2, Inl e)
              | (j2, Inr u) \<Rightarrow>
                  (case process_line line of
                     None \<Rightarrow> get_next_loop process_line j2
                   | Some processed \<Rightarrow> (j2, Inr (Some processed)))))"
  by pat_completeness auto
termination
proof (relation "measure (\<lambda>(process_line, j). passes_left j)")
  show "wf (measure (\<lambda>(process_line, j). passes_left j))"
    by simp
next
  fix process_line :: "string \<Rightarrow> string option"
  fix j :: localfile and h line j1 pr j2 r u
  assume open_handle: "handle j = Some h"
    and line: "line = to_unicode (fst (readline h))"
    and j1: "j1 = j\<lparr>handle := Some (snd (readline h))\<rparr>"
    and pr: "(j2, r) = at_line line j1" "r = Inr u"
    and "process_line line = None"
  show "((process_line, j2), (process_line, j)) \<in> measure (\<lambda>(process_line, j). passes_left j)"
  proof (cases "line = []")
    case True
    with pr have "handle j2 = None"
      by (auto simp: at_line_def close_def split: prod.splits sum.splits)
    with open_handle show ?thesis
      by (simp add: passes_left_def)
  next
    case False
    with pr have "j2 = j1"
      by (auto simp: at_line_def)
    moreover have "length (data h) - (pos h + length (first_line (drop (pos h) (data h))))
        < length (data h) - pos h"
    proof -
      from False line have "first_line (drop (pos h) (data h)) \<noteq> []"
        by (simp add: readline_def to_unicode_def Let_def)
      then have "0 < length (first_line (drop (pos h) (data h)))"
        by simp
      moreover have "length (first_line (drop (pos h) (data h))) \<le> length (data h) - pos h"
        using first_line_length [of "drop (pos h) (data h)"] by simp
      ultimately show ?thesis
        by arith
    qed
    ultimately show ?thesis
      using open_handle j1 by (simp add: passes_left_def readline_def Let_def)
  qed
qed

text \<open>The equation of the loop is unfolded by hand, one pass at a time.\<close>

declare get_next_loop.simps [simp del]

text \<open>
  \<^verbatim>\<open>LocalFilePrintjob.get_next\<close>, with the \<^verbatim>\<open>process_line\<close> of the job's class. Without a
  handle it raises what \<^verbatim>\<open>ValueError("File {} is not open for reading" % self._path)\<close>
  raises: the \<^verbatim>\<open>ValueError\<close> when the message can be built, else the exception of
  building it. An exception inside the \<^verbatim>\<open>try\<close> closes the file, is logged and raised
  again.
\<close>

definition get_next ::
  "(string \<Rightarrow> string option) \<Rightarrow> localfile \<Rightarrow> localfile \<times> (error + string option)" where
  "get_next process_line j =
     (case handle j of
        None \<Rightarrow>
          (case py_percent ''File {} is not open for reading'' (path j) of
             Inl e \<Rightarrow> (j, Inl e)
           | Inr msg \<Rightarrow> (j, Inl (ValueError msg)))
      | Some h \<Rightarrow>
          (case get_next_loop process_line j of
             (j1, Inl e) \<Rightarrow>
               ((close j1)\<lparr>logged := logged j1 @ [''Exception while processing line'']\<rparr>, Inl e)
           | (j1, Inr processed) \<Rightarrow> (j1, Inr processed)))"

definition LocalFilePrintjob_get_next ::
  "localfile \<Rightarrow> localfile \<times> (error + string option)" where
  "LocalFilePrintjob_get_next = get_next LocalFilePrintjob_process_line"

definition LocalGcodeFilePrintjob_get_next ::
  "localfile \<Rightarrow> localfile \<times> (error + string option)" where
  "LocalGcodeFilePrintjob_get_next = get_next LocalGcodeFilePrintjob_process_line"

definition LocalGcodeStreamjob_get_next ::
  "localfile \<Rightarrow> localfile \<times> (error + string option)" where
  "LocalGcodeStreamjob_get_next = get_next LocalGcodeStreamjob_process_line"

text \<open>\<^verbatim>\<open>LocalFilePrintjob.get_progress\<close>: \<^verbatim>\<open>self._handle.tell() / self._size\<close> on two ints.\<close>

definition LocalFilePrintjob_get_progress :: "localfile \<Rightarrow> error + pynum option" where
  "LocalFilePrintjob_get_progress j =
     (case handle j of
        None \<Rightarrow> Inr (Some (PyFloat 0))
      | Some h \<Rightarrow>
          (case py_div (tell h) (file_size j) of Inl e \<Rightarrow> Inl e | Inr q \<Rightarrow> Inr (Some q)))"

definition LocalFilePrintjob_can_get_content :: "localfile \<Rightarrow> bool" where
  "LocalFilePrintjob_can_get_content j = True"

text \<open>
  \<^verbatim>\<open>LocalFilePrintjob.get_content_generator\<close>: the items the generator yields, in order.
  It opens the file again and runs \<^verbatim>\<open>for line in f.readline(): yield line\<close>: the loop
  is over the string that one \<^verbatim>\<open>readline()\<close> call returns, and iterating a string gives
  its characters, each a string of length one. (The call passes \<^verbatim>\<open>error="replace"\<close> where
  \<^verbatim>\<open>process\<close> passes \<^verbatim>\<open>errors="replace"\<close>; the model lets \<^verbatim>\<open>bom_aware_open\<close> accept
  it.) The job itself is not touched.
\<close>

definition LocalFilePrintjob_get_content_generator :: "string \<Rightarrow> localfile \<Rightarrow> string list" where
  "LocalFilePrintjob_get_content_generator contents j =
     (let f = bom_aware_open contents in map (\<lambda>c. [c]) (fst (readline f)))"

text \<open>
  A caller that pulls \<open>n\<close> times: the values of \<open>n\<close> successive \<^verbatim>\<open>get_next()\<close> calls (each
  the exception raised or the value returned) and the job after the last.
\<close>

fun get_next_times ::
  "nat \<Rightarrow> (localfile \<Rightarrow> localfile \<times> (error + string option)) \<Rightarrow> localfile
     \<Rightarrow> localfile \<times> (error + string option) list" where
  "get_next_times 0 next j = (j, [])"
| "get_next_times (Suc n) next j =
     (case next j of (j1, r) \<Rightarrow>
        (case get_next_times n next j1 of (j2, rs) \<Rightarrow> (j2, r # rs)))"

text \<open>The lines of a text, each with its line feed (the last may lack one).\<close>

fun file_lines :: "string \<Rightarrow> string list" where
  "file_lines [] = []"
| "file_lines (c # cs) =
     (if c = CHR 0x0A then [c] # file_lines cs
      else (case file_lines cs of [] \<Rightarrow> [[c]] | l # ls \<Rightarrow> (c # l) # ls))"


section \<open>SDFilePrintjob\<close>

text \<open>
  Modelled from the spec: \<^verbatim>\<open>RepeatedTimer\<close> of \<^verbatim>\<open>octoprint.util\<close>, which is not part of
  this module. Section 4.4 of the specification: "a repeating timer that fires every
  \<^verbatim>\<open>statusInterval\<close> seconds, each tick invoking a protocol status query -- but only
  while \<^verbatim>\<open>active\<close> remains true (the timer's driving condition is re-evaluated each tick,
  so it self-terminates once the job stops)". The timer is its interval and whether it
  is running; \<open>timer_tick\<close> below is one firing.
\<close>

record timer =
  interval :: real
  running :: bool

definition RepeatedTimer :: "real \<Rightarrow> timer" where
  "RepeatedTimer seconds = \<lparr>interval = seconds, running = False\<rparr>"

definition timer_start :: "timer \<Rightarrow> timer" where
  "timer_start t = t\<lparr>running := True\<rparr>"

text \<open>
  The fields \<^verbatim>\<open>_filename\<close>, \<^verbatim>\<open>_status_interval\<close>, \<^verbatim>\<open>_status_timer\<close>, \<^verbatim>\<open>_active\<close>,
  \<^verbatim>\<open>_size\<close> (here \<open>sd_size\<close>) and \<^verbatim>\<open>_last_pos\<close>.
\<close>

record sdfile = printjob +
  filename :: string
  status_interval :: real
  status_timer :: "timer option"
  active :: bool
  sd_size :: "int option"
  last_pos :: "int option"

definition SDFilePrintjob :: "string \<Rightarrow> real \<Rightarrow> sdfile" where
  "SDFilePrintjob name seconds =
     \<lparr>start = None, protocol = None, listeners = [], invoked = [], logged = [],
      filename = name, status_interval = seconds, status_timer = None, active = False,
      sd_size = None, last_pos = None\<rparr>"

definition SDFilePrintjob_process :: "protocol \<Rightarrow> int \<Rightarrow> real \<Rightarrow> sdfile \<Rightarrow> sdfile" where
  "SDFilePrintjob_process p position now j =
     (let j1 = Printjob_process p position now j;
          j2 = j1\<lparr>protocol := map_option (protocol_register_listener ThisJob) (protocol j1)\<rparr>;
          j3 = j2\<lparr>protocol := map_option (start_file_print (filename j2) position) (protocol j2)\<rparr>;
          j4 = j3\<lparr>active := True\<rparr>;
          j5 = j4\<lparr>last_pos := Some position\<rparr>;
          j6 = j5\<lparr>status_timer := Some (RepeatedTimer (status_interval j5))\<rparr>
      in j6\<lparr>status_timer := map_option timer_start (status_timer j6)\<rparr>)"

text \<open>\<^verbatim>\<open>SDFilePrintjob.get_progress\<close>: \<^verbatim>\<open>self._last_pos / self._size\<close> on two ints.\<close>

definition SDFilePrintjob_get_progress :: "sdfile \<Rightarrow> error + pynum option" where
  "SDFilePrintjob_get_progress j =
     (case sd_size j of
        None \<Rightarrow> Inr None
      | Some total' \<Rightarrow>
          (case last_pos j of
             None \<Rightarrow> Inr None
           | Some position \<Rightarrow>
               (case py_div position total' of Inl e \<Rightarrow> Inl e | Inr q \<Rightarrow> Inr (Some q))))"

definition on_protocol_sd_file_list :: "string list \<Rightarrow> sdfile \<Rightarrow> sdfile" where
  "on_protocol_sd_file_list files j = j"

definition on_protocol_sd_status :: "string \<Rightarrow> int \<Rightarrow> int \<Rightarrow> sdfile \<Rightarrow> sdfile" where
  "on_protocol_sd_status name position total' j =
     (if name \<noteq> filename j then j else j\<lparr>last_pos := Some position\<rparr>)"

definition on_protocol_file_print_started :: "string \<Rightarrow> int \<Rightarrow> sdfile \<Rightarrow> sdfile" where
  "on_protocol_file_print_started name total' j =
     (if name \<noteq> filename j then j else j\<lparr>sd_size := Some total'\<rparr>)"

text \<open>
  \<^verbatim>\<open>on_protocol_file_print_done\<close>. A job that was never processed has \<^verbatim>\<open>_protocol = None\<close>,
  and \<^verbatim>\<open>self._protocol.unregister_listener\<close> raises \<^verbatim>\<open>AttributeError\<close>.
\<close>

definition on_protocol_file_print_done :: "sdfile \<Rightarrow> sdfile \<times> (error + unit)" where
  "on_protocol_file_print_done j =
     (let j1 = j\<lparr>active := False\<rparr> in
      case protocol j1 of
        None \<Rightarrow> (j1, Inl AttributeError)
      | Some p \<Rightarrow>
          notify_listeners ''on_job_done'' [PJob] []
            (j1\<lparr>protocol := Some (protocol_unregister_listener ThisJob p)\<rparr>))"

definition query_status :: "sdfile \<Rightarrow> sdfile \<times> (error + unit)" where
  "query_status j =
     (case protocol j of
        None \<Rightarrow> (j, Inl AttributeError)
      | Some p \<Rightarrow> (j\<lparr>protocol := Some (get_file_print_status p)\<rparr>, Inr ()))"

definition query_active :: "sdfile \<Rightarrow> bool" where
  "query_active j = active j"

text \<open>
  Modelled from the spec: one firing of the status timer (see \<open>RepeatedTimer\<close> above). A
  running timer evaluates its condition \<^verbatim>\<open>_query_active\<close>; when it holds the timer calls
  \<^verbatim>\<open>_query_status\<close>, otherwise the timer stops.
\<close>

definition timer_tick :: "sdfile \<Rightarrow> sdfile \<times> (error + unit)" where
  "timer_tick j =
     (case status_timer j of
        None \<Rightarrow> (j, Inr ())
      | Some t \<Rightarrow>
          if \<not> running t then (j, Inr ())
          else if query_active j then query_status j
          else (j\<lparr>status_timer := Some (t\<lparr>running := False\<rparr>)\<rparr>, Inr ()))"

text \<open>\<^verbatim>\<open>cancel\<close> is not overridden: a job of either class runs \<^verbatim>\<open>Printjob.cancel\<close>.\<close>

definition SDFilePrintjob_cancel :: "sdfile \<Rightarrow> sdfile" where
  "SDFilePrintjob_cancel = Printjob_cancel"

definition LocalFilePrintjob_cancel :: "localfile \<Rightarrow> localfile" where
  "LocalFilePrintjob_cancel = Printjob_cancel"


section \<open>Example jobs\<close>

definition idle_protocol :: protocol where
  "idle_protocol = \<lparr>protocol_listeners = [], file_print = None, status_queries = 0\<rparr>"

definition faulty_listener :: listener where
  "faulty_listener = \<lparr>listener_id = 1, methods = [(''on_job_started'', Raises)]\<rparr>"

definition good_listener :: listener where
  "good_listener =
     \<lparr>listener_id = 2, methods = [(''on_job_started'', Returns), (''on_job_done'', Returns)]\<rparr>"

text \<open>A job with two listeners: the first raises in \<^verbatim>\<open>on_job_started\<close>, the second does not.\<close>

definition watched_job :: printjob where
  "watched_job = register_listener good_listener (register_listener faulty_listener Printjob)"

text \<open>The texts \<^verbatim>\<open>"G1\n"\<close> and \<^verbatim>\<open>"G1\nG2\n"\<close>, and a file of 100 bytes.\<close>

definition one_line :: string where
  "one_line = [CHR ''G'', CHR ''1'', CHR 0x0A]"

definition two_lines :: string where
  "two_lines = [CHR ''G'', CHR ''1'', CHR 0x0A, CHR ''G'', CHR ''2'', CHR 0x0A]"

definition hundred_bytes :: string where
  "hundred_bytes = replicate 100 (CHR ''G'')"

text \<open>A local file job that was constructed and never processed.\<close>

definition unopened_job :: localfile where
  "unopened_job = LocalFilePrintjob ''a.gcode'' ''utf-8'' one_line"

text \<open>A job on the 100-byte file after \<^verbatim>\<open>process(protocol, position=50)\<close>.\<close>

definition half_done_job :: localfile where
  "half_done_job =
     LocalFilePrintjob_process hundred_bytes idle_protocol 50 0
       (LocalFilePrintjob ''a.gcode'' ''utf-8'' hundred_bytes)"


text \<open>A job on the 100-byte file after \<^verbatim>\<open>process(protocol, position=100)\<close> at time 10.\<close>

definition finished_job :: localfile where
  "finished_job =
     LocalFilePrintjob_process hundred_bytes idle_protocol 100 10
       (LocalFilePrintjob ''a.gcode'' ''utf-8'' hundred_bytes)"

text \<open>
  A device-resident job with one listener after \<^verbatim>\<open>process(protocol)\<close>, and a local file
  job with one listener after \<^verbatim>\<open>process(protocol)\<close> on the one-line file.
\<close>

definition sd_job :: sdfile where
  "sd_job =
     SDFilePrintjob_process idle_protocol 0 0
       (register_listener good_listener (SDFilePrintjob ''job.gcode'' 2))"

definition open_job :: localfile where
  "open_job =
     LocalFilePrintjob_process one_line idle_protocol 0 0
       (register_listener good_listener (LocalFilePrintjob ''a.gcode'' ''utf-8'' one_line))"


text \<open>
  A listener that raises in \<^verbatim>\<open>on_job_done\<close>, and a processed device-resident job with that
  listener registered before a well-behaved one.
\<close>

definition done_faulty_listener :: listener where
  "done_faulty_listener = \<lparr>listener_id = 3, methods = [(''on_job_done'', Raises)]\<rparr>"

definition sd_watched_job :: sdfile where
  "sd_watched_job =
     SDFilePrintjob_process idle_protocol 0 0
       (register_listener good_listener
          (register_listener done_faulty_listener (SDFilePrintjob ''job.gcode'' 2)))"


section \<open>Facts about the dispatch loop and the formatting calls\<close>

text \<open>
  The outer format of the log message has two fields and is given one argument, so
  building the message raises whatever the event and its arguments are.
\<close>

lemma format_message_raises:
  "py_format ''Exception while calling {} on printjob listener {}'' [call] = Inl IndexError"
  by simp

lemma listener_error_message_raises:
  "\<exists>e. listener_error_message name args kwargs = Inl e"
  by (simp add: listener_error_message_def format_message_raises split: sum.splits)

lemma percent_message_raises:
  "py_percent ''File {} is not open for reading'' file_path = Inl TypeError"
  by (simp add: py_percent_def)

text \<open>
  A dispatch calls a prefix of the handlers of a complete dispatch and changes nothing
  else of the job; when no handler raises it calls them all and returns.
\<close>

lemma notify_loop_calls:
  "\<exists>n r. notify_loop name args kwargs ls j =
      (j\<lparr>invoked := invoked j @ take n (handler_calls name args ls)\<rparr>, r)"
proof (induction ls arbitrary: j)
  case Nil
  show ?case by (simp add: handler_calls_def)
next
  case (Cons l ls)
  let ?c = "(listener_id l, name, args)"
  let ?j1 = "j\<lparr>invoked := invoked j @ [?c]\<rparr>"
  from listener_error_message_raises obtain e
    where e: "listener_error_message name args kwargs = Inl e" by blast
  show ?case
  proof (cases "map_of (methods l) name")
    case None
    with Cons.IH [of j] show ?thesis by (simp add: handler_calls_def)
  next
    case (Some b)
    then have calls: "handler_calls name args (l # ls) = ?c # handler_calls name args ls"
      by (simp add: handler_calls_def)
    show ?thesis
    proof (cases b)
      case Returns
      from Cons.IH [of ?j1] obtain n r where
        "notify_loop name args kwargs ls ?j1 =
           (?j1\<lparr>invoked := invoked ?j1 @ take n (handler_calls name args ls)\<rparr>, r)"
        by blast
      then have "notify_loop name args kwargs (l # ls) j =
          (j\<lparr>invoked := invoked j @ take (Suc n) (handler_calls name args (l # ls))\<rparr>, r)"
        using Some Returns calls by (simp add: Let_def)
      then show ?thesis by blast
    next
      case Raises
      have "notify_loop name args kwargs (l # ls) j =
          (j\<lparr>invoked := invoked j @ take (Suc 0) (handler_calls name args (l # ls))\<rparr>, Inl e)"
        using Some Raises calls e by (simp add: Let_def)
      then show ?thesis by blast
    qed
  qed
qed

lemma notify_loop_all_return:
  "list_all (\<lambda>l. map_of (methods l) name \<noteq> Some Raises) ls \<Longrightarrow>
   notify_loop name args kwargs ls j =
     (j\<lparr>invoked := invoked j @ handler_calls name args ls\<rparr>, Inr ())"
proof (induction ls arbitrary: j)
  case Nil
  then show ?case by (simp add: handler_calls_def)
next
  case (Cons l ls)
  then show ?case
    by (cases "map_of (methods l) name")
       (auto simp: Let_def handler_calls_def split: behaviour.splits)
qed

lemma remove1_single: "count_list xs x \<le> 1 \<Longrightarrow> x \<notin> set (remove1 x xs)"
  by (induction xs) (auto simp: count_list_0_iff)

text \<open>The example jobs, field by field.\<close>

lemma finished_job_facts:
  "start finished_job = Some 10"
  "LocalFilePrintjob_get_progress finished_job = Inr (Some (PyInt 1))"
  by (simp_all add: finished_job_def LocalFilePrintjob_process_def LocalFilePrintjob_def
      Printjob_process_def bom_aware_open_def seek_def tell_def hundred_bytes_def
      LocalFilePrintjob_get_progress_def py_div_def)

lemma sd_job_facts:
  "filename sd_job = ''job.gcode''" "last_pos sd_job = Some 0" "active sd_job"
  "protocol sd_job = Some \<lparr>protocol_listeners = [ThisJob], file_print = Some (''job.gcode'', 0), status_queries = 0\<rparr>"
  "status_timer sd_job = Some \<lparr>interval = 2, running = True\<rparr>"
  "listeners sd_job = [good_listener]" "invoked sd_job = []" "sd_size sd_job = None"
  by (simp_all add: sd_job_def SDFilePrintjob_process_def SDFilePrintjob_def register_listener_def
      Printjob_process_def Let_def idle_protocol_def protocol_register_listener_def
      start_file_print_def RepeatedTimer_def timer_start_def)

text \<open>
  In a file of \<open>size\<close> bytes every offset below \<open>size\<close> gives progress 0: the quotient of
  the two ints is floored.
\<close>

lemma get_progress_below_size:
  assumes "0 \<le> position" and "position < int (length contents)"
  shows "LocalFilePrintjob_get_progress
           (LocalFilePrintjob_process contents p position now
              (LocalFilePrintjob file_path file_encoding contents)) = Inr (Some (PyInt 0))"
  using assms
  by (auto simp: LocalFilePrintjob_process_def LocalFilePrintjob_def
      Printjob_process_def bom_aware_open_def seek_def tell_def Let_def
      LocalFilePrintjob_get_progress_def py_div_def)


section \<open>Facts about reading a local file\<close>

text \<open>
  The first line of a text that is not empty is the first of its lines, and the lines
  after it are the lines of what follows.
\<close>

lemma file_lines_empty: "file_lines s = [] \<longleftrightarrow> s = []"
  by (cases s) (auto split: list.splits)

lemma file_lines_first:
  "s \<noteq> [] \<Longrightarrow> file_lines s = first_line s # file_lines (drop (length (first_line s)) s)"
proof (induction s)
  case Nil
  then show ?case by simp
next
  case (Cons c cs)
  show ?case
  proof (cases "cs = []")
    case True
    then show ?thesis by simp
  next
    case False
    with Cons.IH show ?thesis by simp
  qed
qed

text \<open>
  One \<^verbatim>\<open>get_next()\<close> call of a \<^verbatim>\<open>LocalFilePrintjob\<close>: before the end of the file, at the
  end of the file, and without a handle.
\<close>

lemma get_next_line:
  assumes "handle j = Some h" and "drop (pos h) (data h) \<noteq> []"
  shows "LocalFilePrintjob_get_next j =
     (j\<lparr>handle := Some (h\<lparr>pos := pos h + length (first_line (drop (pos h) (data h)))\<rparr>)\<rparr>,
      Inr (Some (first_line (drop (pos h) (data h)))))"
proof -
  from assms(2) have "first_line (drop (pos h) (data h)) \<noteq> []"
    by (simp add: first_line_empty)
  with assms(1) show ?thesis
    by (simp add: LocalFilePrintjob_get_next_def get_next_def get_next_loop.simps [of _ j]
        readline_def to_unicode_def Let_def at_line_def LocalFilePrintjob_process_line_def)
qed

lemma get_next_end_of_file:
  assumes "handle j = Some h" and "drop (pos h) (data h) = []"
  shows "handle (fst (LocalFilePrintjob_get_next j)) = None"
    and "invoked (fst (LocalFilePrintjob_get_next j)) =
           invoked (fst (notify_listeners ''on_job_done'' [PJob] [] j))"
    and "listeners (fst (LocalFilePrintjob_get_next j)) = listeners j"
proof -
  have same: "j\<lparr>handle := Some h\<rparr> = j"
    using assms(1) by (cases j) simp
  obtain n r where once: "notify_listeners ''on_job_done'' [PJob] [] j =
      (j\<lparr>invoked := invoked j @ take n (handler_calls ''on_job_done'' [PJob] (listeners j))\<rparr>, r)"
    unfolding notify_listeners_def using notify_loop_calls by blast
  have loop: "get_next_loop LocalFilePrintjob_process_line j =
      (case notify_listeners ''on_job_done'' [PJob] [] j of
         (j1, Inl e) \<Rightarrow> (j1, Inl e)
       | (j1, Inr u) \<Rightarrow> (close j1, Inr (Some [])))"
    using assms
    by (simp add: get_next_loop.simps [of _ j] readline_def to_unicode_def Let_def at_line_def
        LocalFilePrintjob_process_line_def same split: prod.splits sum.splits)
  show "handle (fst (LocalFilePrintjob_get_next j)) = None"
    using assms(1) once
    by (cases r) (simp_all add: LocalFilePrintjob_get_next_def get_next_def loop close_def)
  show "invoked (fst (LocalFilePrintjob_get_next j)) =
           invoked (fst (notify_listeners ''on_job_done'' [PJob] [] j))"
    using assms(1) once
    by (cases r) (simp_all add: LocalFilePrintjob_get_next_def get_next_def loop close_def)
  show "listeners (fst (LocalFilePrintjob_get_next j)) = listeners j"
    using assms(1) once
    by (cases r) (simp_all add: LocalFilePrintjob_get_next_def get_next_def loop close_def)
qed

lemma get_next_closed:
  assumes "handle j = None"
  shows "get_next process_line j = (j, Inl TypeError)"
  using assms by (simp add: get_next_def percent_message_raises)

text \<open>Successive calls.\<close>

lemma get_next_times_add:
  "get_next_times (a + b) next j =
     (case get_next_times a next j of
        (j1, rs1) \<Rightarrow> (case get_next_times b next j1 of (j2, rs2) \<Rightarrow> (j2, rs1 @ rs2)))"
  by (induction a arbitrary: j) (auto split: prod.splits)

lemma get_next_times_closed:
  "handle j = None \<Longrightarrow>
   get_next_times m LocalFilePrintjob_get_next j = (j, replicate m (Inl TypeError))"
  by (induction m) (simp_all add: LocalFilePrintjob_get_next_def get_next_closed)

lemma get_next_times_lines:
  assumes "handle j = Some h" and "length (file_lines (drop (pos h) (data h))) = n"
  shows "\<exists>h'. get_next_times n LocalFilePrintjob_get_next j =
            (j\<lparr>handle := Some h'\<rparr>,
             map (\<lambda>l. Inr (Some l)) (file_lines (drop (pos h) (data h)))) \<and>
          drop (pos h') (data h') = []"
  using assms
proof (induction n arbitrary: j h)
  case 0
  then have "drop (pos h) (data h) = []"
    by (simp add: file_lines_empty)
  moreover have "j\<lparr>handle := Some h\<rparr> = j"
    using "0.prems"(1) by (cases j) simp
  ultimately have "get_next_times 0 LocalFilePrintjob_get_next j =
            (j\<lparr>handle := Some h\<rparr>,
             map (\<lambda>l. Inr (Some l)) (file_lines (drop (pos h) (data h)))) \<and>
          drop (pos h) (data h) = []"
    by simp
  then show ?case by blast
next
  case (Suc n)
  let ?rest = "drop (pos h) (data h)"
  let ?h1 = "h\<lparr>pos := pos h + length (first_line ?rest)\<rparr>"
  let ?j1 = "j\<lparr>handle := Some ?h1\<rparr>"
  from Suc.prems(2) have ne: "?rest \<noteq> []"
    by auto
  have first: "LocalFilePrintjob_get_next j = (?j1, Inr (Some (first_line ?rest)))"
    using get_next_line [OF Suc.prems(1) ne] .
  have rest1: "drop (pos ?h1) (data ?h1) = drop (length (first_line ?rest)) ?rest"
    by (simp add: add.commute)
  have lines: "file_lines ?rest = first_line ?rest # file_lines (drop (pos ?h1) (data ?h1))"
    using file_lines_first [OF ne] rest1 by simp
  with Suc.prems(2) have "length (file_lines (drop (pos ?h1) (data ?h1))) = n"
    by simp
  moreover have "handle ?j1 = Some ?h1"
    by simp
  ultimately obtain h' where
    later: "get_next_times n LocalFilePrintjob_get_next ?j1 =
        (?j1\<lparr>handle := Some h'\<rparr>,
         map (\<lambda>l. Inr (Some l)) (file_lines (drop (pos ?h1) (data ?h1))))"
    and end_of_file: "drop (pos h') (data h') = []"
    using Suc.IH [of ?j1 ?h1] by blast
  have "get_next_times (Suc n) LocalFilePrintjob_get_next j =
      (j\<lparr>handle := Some h'\<rparr>, map (\<lambda>l. Inr (Some l)) (file_lines ?rest))"
    using first later by (simp add: lines)
  with end_of_file show ?case
    by blast
qed

lemma open_job_facts:
  "handle open_job = Some \<lparr>data = one_line, pos = 0\<rparr>"
  "listeners open_job = [good_listener]" "invoked open_job = []"
  by (simp_all add: open_job_def LocalFilePrintjob_process_def LocalFilePrintjob_def
      register_listener_def Printjob_process_def Let_def bom_aware_open_def)


section \<open>Facts about the file-print-done callback\<close>

text \<open>
  For a job bound to a protocol the callback always sets \<^verbatim>\<open>_active\<close> to false and
  unregisters the job; it calls no handler twice, and when no \<^verbatim>\<open>on_job_done\<close> handler
  raises it calls every listener that has the handler, in registration order, and
  returns.
\<close>

lemma file_print_done_effects:
  assumes "protocol j = Some p"
  shows "active (fst (on_protocol_file_print_done j)) = False \<and>
    protocol (fst (on_protocol_file_print_done j)) = Some (protocol_unregister_listener ThisJob p) \<and>
    (count_list (protocol_listeners p) ThisJob \<le> 1 \<longrightarrow>
       ThisJob \<notin> set (protocol_listeners (protocol_unregister_listener ThisJob p))) \<and>
    (\<exists>n. invoked (fst (on_protocol_file_print_done j)) =
       invoked j @ take n (handler_calls ''on_job_done'' [PJob] (listeners j))) \<and>
    (list_all (\<lambda>l. map_of (methods l) ''on_job_done'' \<noteq> Some Raises) (listeners j) \<longrightarrow>
       snd (on_protocol_file_print_done j) = Inr () \<and>
       invoked (fst (on_protocol_file_print_done j)) =
         invoked j @ handler_calls ''on_job_done'' [PJob] (listeners j))"
proof -
  let ?j1 = "j\<lparr>active := False, protocol := Some (protocol_unregister_listener ThisJob p)\<rparr>"
  have callback: "on_protocol_file_print_done j = notify_listeners ''on_job_done'' [PJob] [] ?j1"
    using assms by (simp add: on_protocol_file_print_done_def Let_def)
  obtain n r where once: "notify_listeners ''on_job_done'' [PJob] [] ?j1 =
      (?j1\<lparr>invoked := invoked ?j1 @ take n (handler_calls ''on_job_done'' [PJob] (listeners ?j1))\<rparr>, r)"
    unfolding notify_listeners_def using notify_loop_calls by blast
  have unregistered: "count_list (protocol_listeners p) ThisJob \<le> 1 \<longrightarrow>
      ThisJob \<notin> set (protocol_listeners (protocol_unregister_listener ThisJob p))"
    by (simp add: protocol_unregister_listener_def remove1_single)
  have all: "list_all (\<lambda>l. map_of (methods l) ''on_job_done'' \<noteq> Some Raises) (listeners j) \<longrightarrow>
      notify_listeners ''on_job_done'' [PJob] [] ?j1 =
        (?j1\<lparr>invoked := invoked j @ handler_calls ''on_job_done'' [PJob] (listeners j)\<rparr>, Inr ())"
    using notify_loop_all_return [of "''on_job_done''" "listeners ?j1" "[PJob]" "[]" ?j1]
    by (simp add: notify_listeners_def)
  have "\<exists>n. invoked (fst (on_protocol_file_print_done j)) =
       invoked j @ take n (handler_calls ''on_job_done'' [PJob] (listeners j))"
    using callback once by auto
  with callback once unregistered all show ?thesis
    by auto
qed


section \<open>The claims\<close>

subsection \<open>C1: a raising handler\<close>

text \<open>
  C1 says that an exception raised by a listener's handler is caught and logged inside
  \<^verbatim>\<open>notify_listeners\<close>, that the listeners registered after it are still notified, and
  that nothing propagates to the caller. On the job with a raising and a well-behaved
  listener, dispatching \<^verbatim>\<open>on_job_started\<close> with the job as argument calls the first
  handler only: the \<^verbatim>\<open>except\<close> body raises \<^verbatim>\<open>TypeError\<close> while it joins the arguments
  for the log message (the job is not a string), nothing is logged, the second listener
  is never called and the \<^verbatim>\<open>TypeError\<close> leaves \<^verbatim>\<open>notify_listeners\<close>.
\<close>

theorem C1_notify_listeners_handler_exception_propagates:
  "notify_listeners ''on_job_started'' [PJob] [] watched_job =
     (watched_job\<lparr>invoked := [(1, ''on_job_started'', [PJob])]\<rparr>, Inl TypeError)"
  by (simp add: notify_listeners_def watched_job_def register_listener_def Printjob_def
      faulty_listener_def good_listener_def listener_error_message_def py_join_def)


subsection \<open>C2: pulling lines until the end of the file\<close>

text \<open>
  C2 says that the \<^verbatim>\<open>get_next()\<close> call that reads the end of the file returns \<^verbatim>\<open>None\<close>
  and that every later call returns \<^verbatim>\<open>None\<close> too. On the open job over the file
  \<^verbatim>\<open>"G1\n"\<close>, three calls give: the line, then the empty string (the line read at the end
  of the file, passed through \<^verbatim>\<open>process_line\<close>), then an exception.
\<close>

theorem C2_get_next_counterexample:
  "snd (get_next_times 3 LocalFilePrintjob_get_next open_job) =
     [Inr (Some one_line), Inr (Some []), Inl TypeError]"
proof -
  let ?h = "\<lparr>data = one_line, pos = 0\<rparr>"
  let ?h1 = "\<lparr>data = one_line, pos = 3\<rparr>"
  let ?j1 = "open_job\<lparr>handle := Some ?h1\<rparr>"
  let ?j2 = "open_job\<lparr>invoked := [(2, ''on_job_done'', [PJob])], handle := None\<rparr>"
  have first: "LocalFilePrintjob_get_next open_job = (?j1, Inr (Some one_line))"
    using get_next_line [of open_job ?h] by (simp add: open_job_facts one_line_def)
  have "get_next_loop LocalFilePrintjob_process_line ?j1 = (?j2, Inr (Some []))"
    by (subst get_next_loop.simps)
       (simp add: readline_def to_unicode_def Let_def at_line_def
          LocalFilePrintjob_process_line_def one_line_def notify_listeners_def open_job_facts
          good_listener_def close_def)
  then have second: "LocalFilePrintjob_get_next ?j1 = (?j2, Inr (Some []))"
    by (simp add: LocalFilePrintjob_get_next_def get_next_def)
  have third: "LocalFilePrintjob_get_next ?j2 = (?j2, Inl TypeError)"
    by (simp add: LocalFilePrintjob_get_next_def get_next_closed)
  have "get_next_times (Suc (Suc (Suc 0))) LocalFilePrintjob_get_next open_job =
      (?j2, [Inr (Some one_line), Inr (Some []), Inl TypeError])"
    by (simp add: first second third)
  then show ?thesis
    by (simp add: eval_nat_numeral)
qed

text \<open>
  C2 as amended: for a \<^verbatim>\<open>LocalFilePrintjob\<close> with an open handle, successive \<^verbatim>\<open>get_next()\<close>
  calls return the lines of the file from the handle's offset on, in file order, and the
  handle stays open; the next call, which reads the end of the file, dispatches
  \<^verbatim>\<open>on_job_done\<close> through \<^verbatim>\<open>notify_listeners\<close> (to every listener that has the handler
  when none of them raises) and leaves the job without a handle; every call after that
  raises an exception and leaves the job as it is.
\<close>

theorem C2_get_next_until_end_of_file:
  assumes "handle j = Some h" and "lines = file_lines (drop (pos h) (data h))"
  shows "snd (get_next_times (length lines) LocalFilePrintjob_get_next j) =
           map (\<lambda>l. Inr (Some l)) lines \<and>
         handle (fst (get_next_times (length lines) LocalFilePrintjob_get_next j)) \<noteq> None \<and>
         handle (fst (get_next_times (Suc (length lines)) LocalFilePrintjob_get_next j)) = None \<and>
         invoked (fst (get_next_times (Suc (length lines)) LocalFilePrintjob_get_next j)) =
           invoked (fst (notify_listeners ''on_job_done'' [PJob] []
             (fst (get_next_times (length lines) LocalFilePrintjob_get_next j)))) \<and>
         (list_all (\<lambda>l. map_of (methods l) ''on_job_done'' \<noteq> Some Raises) (listeners j) \<longrightarrow>
            invoked (fst (get_next_times (Suc (length lines)) LocalFilePrintjob_get_next j)) =
              invoked j @ handler_calls ''on_job_done'' [PJob] (listeners j)) \<and>
         list_all isl
           (drop (Suc (length lines))
              (snd (get_next_times (Suc (length lines) + m) LocalFilePrintjob_get_next j))) \<and>
         length (snd (get_next_times (Suc (length lines) + m) LocalFilePrintjob_get_next j)) =
           Suc (length lines) + m \<and>
         fst (get_next_times (Suc (length lines) + m) LocalFilePrintjob_get_next j) =
           fst (get_next_times (Suc (length lines)) LocalFilePrintjob_get_next j)"
proof -
  let ?next = LocalFilePrintjob_get_next
  let ?n = "length lines"
  from assms obtain h' where
    pulled: "get_next_times ?n ?next j = (j\<lparr>handle := Some h'\<rparr>, map (\<lambda>l. Inr (Some l)) lines)"
    and end_of_file: "drop (pos h') (data h') = []"
    using get_next_times_lines [of j h ?n] by auto
  let ?jn = "j\<lparr>handle := Some h'\<rparr>"
  have open_handle: "handle ?jn = Some h'"
    by simp
  obtain je r where last: "?next ?jn = (je, r)"
    by (cases "?next ?jn")
  have closed: "handle je = None"
    using get_next_end_of_file(1) [OF open_handle end_of_file] last by simp
  have calls: "invoked je = invoked (fst (notify_listeners ''on_job_done'' [PJob] [] ?jn))"
    using get_next_end_of_file(2) [OF open_handle end_of_file] last by simp
  have suc: "get_next_times (Suc ?n) ?next j = (je, map (\<lambda>l. Inr (Some l)) lines @ [r])"
    using get_next_times_add [of ?n 1 ?next j] pulled last by simp
  have after: "get_next_times (Suc ?n + m) ?next j =
      (je, (map (\<lambda>l. Inr (Some l)) lines @ [r]) @ replicate m (Inl TypeError))"
    using get_next_times_add [of "Suc ?n" m ?next j] suc get_next_times_closed [OF closed, of m]
    by simp
  have all: "list_all (\<lambda>l. map_of (methods l) ''on_job_done'' \<noteq> Some Raises) (listeners j) \<longrightarrow>
      invoked je = invoked j @ handler_calls ''on_job_done'' [PJob] (listeners j)"
    using notify_loop_all_return [of "''on_job_done''" "listeners ?jn" "[PJob]" "[]" ?jn] calls
    by (simp add: notify_listeners_def)
  show ?thesis
    unfolding after suc pulled
    using closed calls all by (simp add: list_all_iff)
qed

theorem C2_get_next_until_end_of_file_witness:
  "handle open_job = Some \<lparr>data = one_line, pos = 0\<rparr> \<and>
   [one_line] = file_lines (drop (pos \<lparr>data = one_line, pos = 0\<rparr>) (data \<lparr>data = one_line, pos = 0\<rparr>)) \<and>
   snd (get_next_times (length [one_line]) LocalFilePrintjob_get_next open_job) =
     [Inr (Some one_line)] \<and>
   handle (fst (get_next_times (Suc (length [one_line])) LocalFilePrintjob_get_next open_job)) = None \<and>
   invoked (fst (get_next_times (Suc (length [one_line])) LocalFilePrintjob_get_next open_job)) =
     [(2, ''on_job_done'', [PJob])] \<and>
   list_all isl
     (drop (Suc (length [one_line]))
        (snd (get_next_times (Suc (length [one_line]) + 2) LocalFilePrintjob_get_next open_job))) \<and>
   length (snd (get_next_times (Suc (length [one_line]) + 2) LocalFilePrintjob_get_next open_job)) = 4"
proof -
  have lines: "[one_line] =
      file_lines (drop (pos \<lparr>data = one_line, pos = 0\<rparr>) (data \<lparr>data = one_line, pos = 0\<rparr>))"
    by (simp add: one_line_def)
  have returns: "list_all (\<lambda>l. map_of (methods l) ''on_job_done'' \<noteq> Some Raises) (listeners open_job)"
    by (simp add: open_job_facts good_listener_def)
  have calls: "handler_calls ''on_job_done'' [PJob] (listeners open_job) = [(2, ''on_job_done'', [PJob])]"
    by (simp add: open_job_facts handler_calls_def good_listener_def)
  note all = C2_get_next_until_end_of_file [OF open_job_facts(1) lines, of 2]
  have pulled: "snd (get_next_times (length [one_line]) LocalFilePrintjob_get_next open_job) =
      [Inr (Some one_line)]"
    using all by (simp del: get_next_times.simps)
  have closed: "handle (fst (get_next_times (Suc (length [one_line])) LocalFilePrintjob_get_next open_job)) = None"
    using all by (simp del: get_next_times.simps)
  have notified: "invoked (fst (get_next_times (Suc (length [one_line])) LocalFilePrintjob_get_next open_job)) =
      [(2, ''on_job_done'', [PJob])]"
    using all [THEN conjunct2, THEN conjunct2, THEN conjunct2, THEN conjunct2, THEN conjunct1]
      returns calls
    by (simp add: open_job_facts del: get_next_times.simps)
  have later: "list_all isl
     (drop (Suc (length [one_line]))
        (snd (get_next_times (Suc (length [one_line]) + 2) LocalFilePrintjob_get_next open_job))) \<and>
     length (snd (get_next_times (Suc (length [one_line]) + 2) LocalFilePrintjob_get_next open_job)) = 4"
    using all by (simp del: get_next_times.simps)
  from open_job_facts(1) lines pulled closed notified later show ?thesis
    by blast
qed


subsection \<open>C3: progress of a local file job\<close>

text \<open>
  C3 says that after \<^verbatim>\<open>process(protocol, position)\<close> the progress is the fractional
  quotient \<^verbatim>\<open>position / size\<close>, 0.5 for position 50 in a file of 100 bytes. The method
  divides two ints, which in this Python 2 module is floor division: for the 100-byte
  file opened at offset 50, \<^verbatim>\<open>get_progress()\<close> returns the int 0.
\<close>

theorem C3_get_progress_floor_division:
  "file_size half_done_job = 100 \<and> map_option tell (handle half_done_job) = Some 50 \<and>
   LocalFilePrintjob_get_progress half_done_job = Inr (Some (PyInt 0))"
  by (simp add: half_done_job_def LocalFilePrintjob_process_def LocalFilePrintjob_def
      Printjob_process_def bom_aware_open_def seek_def tell_def hundred_bytes_def
      LocalFilePrintjob_get_progress_def py_div_def)


subsection \<open>C4: the time estimate\<close>

text \<open>
  C4: \<^verbatim>\<open>get_time_estimate(lost_time)\<close> returns \<^verbatim>\<open>None\<close> when the job has not been started,
  and when \<^verbatim>\<open>get_progress()\<close> is \<^verbatim>\<open>None\<close> or zero; otherwise it returns
  \<^verbatim>\<open>(now - start - lost_time) / progress\<close>. This holds for the \<^verbatim>\<open>get_progress\<close> of every
  class (times and the quotient are real numbers here).
\<close>

theorem C4_get_time_estimate:
  "(start j = None \<longrightarrow> Printjob_get_time_estimate get_progress now lost_time j = Inr None) \<and>
   (get_progress j = Inr None \<longrightarrow>
      Printjob_get_time_estimate get_progress now lost_time j = Inr None) \<and>
   (get_progress j = Inr (Some progress) \<and> num_value progress = 0 \<longrightarrow>
      Printjob_get_time_estimate get_progress now lost_time j = Inr None) \<and>
   (start j = Some started \<and> get_progress j = Inr (Some progress) \<and> num_value progress \<noteq> 0 \<longrightarrow>
      Printjob_get_time_estimate get_progress now lost_time j =
        Inr (Some ((now - started - lost_time) / num_value progress)))"
  by (simp add: Printjob_get_time_estimate_def split: option.splits)

theorem C4_get_time_estimate_witness:
  "start finished_job = Some 10 \<and>
   LocalFilePrintjob_get_progress finished_job = Inr (Some (PyInt 1)) \<and>
   Printjob_get_time_estimate LocalFilePrintjob_get_progress 35 5 finished_job = Inr (Some 20) \<and>
   start unopened_job = None \<and>
   Printjob_get_time_estimate LocalFilePrintjob_get_progress 35 5 unopened_job = Inr None"
  using C4_get_time_estimate [of finished_job LocalFilePrintjob_get_progress 35 5 "PyInt 1" 10]
    C4_get_time_estimate [of unopened_job LocalFilePrintjob_get_progress 35 5]
  by (simp add: finished_job_facts unopened_job_def LocalFilePrintjob_def)


subsection \<open>C5: the status callback\<close>

text \<open>
  C5: \<^verbatim>\<open>on_protocol_sd_status(name, pos, total)\<close> with a name other than the job's
  filename leaves the whole job unchanged; with the job's filename it sets \<^verbatim>\<open>_last_pos\<close>
  to \<^verbatim>\<open>pos\<close> and changes nothing else.
\<close>

theorem C5_on_protocol_sd_status:
  "(name \<noteq> filename j \<longrightarrow> on_protocol_sd_status name position total' j = j) \<and>
   (name = filename j \<longrightarrow>
      last_pos (on_protocol_sd_status name position total' j) = Some position \<and>
      on_protocol_sd_status name position total' j = j\<lparr>last_pos := Some position\<rparr>)"
  by (simp add: on_protocol_sd_status_def)

theorem C5_on_protocol_sd_status_witness:
  "''other.gcode'' \<noteq> filename sd_job \<and>
   on_protocol_sd_status ''other.gcode'' 250 1000 sd_job = sd_job \<and>
   ''job.gcode'' = filename sd_job \<and>
   last_pos (on_protocol_sd_status ''job.gcode'' 250 1000 sd_job) = Some 250"
  using C5_on_protocol_sd_status [of "''other.gcode''" sd_job 250 1000]
    C5_on_protocol_sd_status [of "''job.gcode''" sd_job 250 1000]
  by (simp add: sd_job_facts)


subsection \<open>C6: the file-print-done callback\<close>

text \<open>
  C6 says that \<^verbatim>\<open>on_protocol_file_print_done()\<close> sets \<^verbatim>\<open>_active\<close> to false, unregisters
  the job from the protocol and emits \<^verbatim>\<open>on_job_done\<close> to the job's listeners exactly
  once. On a processed job with two listeners, the first raising in \<^verbatim>\<open>on_job_done\<close> and
  the second not, the callback sets \<^verbatim>\<open>_active\<close> to false and unregisters the job, but the
  dispatch stops at the first listener: \<^verbatim>\<open>notify_listeners\<close> raises \<^verbatim>\<open>TypeError\<close> while it
  builds the log message, the second listener never receives \<^verbatim>\<open>on_job_done\<close>, and the
  \<^verbatim>\<open>TypeError\<close> leaves the callback.
\<close>

theorem C6_file_print_done_raising_listener:
  "active sd_watched_job \<and>
   map_option protocol_listeners (protocol sd_watched_job) = Some [ThisJob] \<and>
   listeners sd_watched_job = [done_faulty_listener, good_listener] \<and>
   active (fst (on_protocol_file_print_done sd_watched_job)) = False \<and>
   map_option protocol_listeners (protocol (fst (on_protocol_file_print_done sd_watched_job))) =
     Some [] \<and>
   invoked (fst (on_protocol_file_print_done sd_watched_job)) = [(3, ''on_job_done'', [PJob])] \<and>
   snd (on_protocol_file_print_done sd_watched_job) = Inl TypeError"
  by (simp add: sd_watched_job_def SDFilePrintjob_process_def SDFilePrintjob_def
      register_listener_def Printjob_process_def Let_def idle_protocol_def
      protocol_register_listener_def start_file_print_def RepeatedTimer_def timer_start_def
      on_protocol_file_print_done_def protocol_unregister_listener_def notify_listeners_def
      done_faulty_listener_def good_listener_def listener_error_message_def py_join_def)


subsection \<open>C7: cancelling a device-resident job\<close>

text \<open>
  C7 says that \<^verbatim>\<open>cancel()\<close> on a processing \<^verbatim>\<open>SDFilePrintjob\<close> stops the status timer,
  unregisters the job from the protocol and notifies the listeners. The class inherits
  \<^verbatim>\<open>Printjob.cancel\<close>, whose body is \<^verbatim>\<open>pass\<close>. On the example job, after \<^verbatim>\<open>cancel()\<close> the
  job is still active, its timer still runs, the job is still registered, no listener
  was called, and the next firing of the timer issues a status query.
\<close>

theorem C7_cancel_counterexample:
  "active (SDFilePrintjob_cancel sd_job) \<and>
   map_option running (status_timer (SDFilePrintjob_cancel sd_job)) = Some True \<and>
   map_option protocol_listeners (protocol (SDFilePrintjob_cancel sd_job)) = Some [ThisJob] \<and>
   invoked (SDFilePrintjob_cancel sd_job) = [] \<and>
   map_option status_queries (protocol (SDFilePrintjob_cancel sd_job)) = Some 0 \<and>
   map_option status_queries (protocol (fst (timer_tick (SDFilePrintjob_cancel sd_job)))) = Some 1"
  by (simp add: SDFilePrintjob_cancel_def Printjob_cancel_def sd_job_facts timer_tick_def
      query_active_def query_status_def get_file_print_status_def)

text \<open>
  C7 as amended: \<^verbatim>\<open>cancel()\<close> of an \<^verbatim>\<open>SDFilePrintjob\<close> is the inherited no-op. It leaves
  the job as it is; after \<^verbatim>\<open>process\<close> and \<^verbatim>\<open>cancel\<close> the job is active, its timer runs,
  the job is registered with the protocol, no listener was notified, and a firing of
  the timer issues one more status query.
\<close>

theorem C7_cancel_is_no_op:
  "SDFilePrintjob_cancel j = j \<and>
   active (SDFilePrintjob_cancel (SDFilePrintjob_process p position now j)) \<and>
   map_option running
     (status_timer (SDFilePrintjob_cancel (SDFilePrintjob_process p position now j))) = Some True \<and>
   map_option protocol_listeners
     (protocol (SDFilePrintjob_cancel (SDFilePrintjob_process p position now j))) =
       Some (protocol_listeners p @ [ThisJob]) \<and>
   invoked (SDFilePrintjob_cancel (SDFilePrintjob_process p position now j)) = invoked j \<and>
   map_option status_queries
     (protocol (fst (timer_tick (SDFilePrintjob_cancel (SDFilePrintjob_process p position now j))))) =
       Some (Suc (status_queries p))"
  by (simp add: SDFilePrintjob_cancel_def Printjob_cancel_def SDFilePrintjob_process_def
      Printjob_process_def Let_def protocol_register_listener_def start_file_print_def
      RepeatedTimer_def timer_start_def timer_tick_def query_active_def query_status_def
      get_file_print_status_def)


subsection \<open>C8: pulling from a job that is not open\<close>

text \<open>
  C8 says that \<^verbatim>\<open>get_next()\<close> on a job without an open handle raises a \<^verbatim>\<open>ValueError\<close>
  that names the file. The message is built with \<^verbatim>\<open>%\<close> from a format that has a
  \<^verbatim>\<open>{}\<close> field and no \<^verbatim>\<open>%\<close> directive, so building it raises \<^verbatim>\<open>TypeError\<close> and no
  \<^verbatim>\<open>ValueError\<close> is ever constructed: on a job that was never processed \<^verbatim>\<open>get_next()\<close>
  raises \<^verbatim>\<open>TypeError\<close> and leaves the job as it was.
\<close>

theorem C8_get_next_unopened_raises_TypeError:
  "LocalFilePrintjob_get_next unopened_job = (unopened_job, Inl TypeError)"
  by (simp add: LocalFilePrintjob_get_next_def get_next_def unopened_job_def LocalFilePrintjob_def
      py_percent_def)


subsection \<open>C9: the content generator\<close>

text \<open>
  C9 says that \<^verbatim>\<open>get_content_generator()\<close> yields exactly the lines of the file. On the
  file \<^verbatim>\<open>"G1\n"\<close>, \<^verbatim>\<open>"G2\n"\<close> the generator yields the three characters of the first line,
  one at a time, and nothing of the second line; the lines of the file are the two
  texts \<^verbatim>\<open>"G1\n"\<close> and \<^verbatim>\<open>"G2\n"\<close>.
\<close>

theorem C9_get_content_generator_yields_characters:
  "LocalFilePrintjob_get_content_generator two_lines j = [''G'', ''1'', [CHR 0x0A]] \<and>
   file_lines two_lines = [[CHR ''G'', CHR ''1'', CHR 0x0A], [CHR ''G'', CHR ''2'', CHR 0x0A]]"
  by (simp add: LocalFilePrintjob_get_content_generator_def two_lines_def bom_aware_open_def
      readline_def)


subsection \<open>C10: progress of a device-resident job of size zero\<close>

text \<open>
  C10: \<^verbatim>\<open>SDFilePrintjob.get_progress\<close> returns \<^verbatim>\<open>None\<close> when \<^verbatim>\<open>_size\<close> or \<^verbatim>\<open>_last_pos\<close> is
  \<^verbatim>\<open>None\<close> and has no guard for a size of zero: once a job with a known position (every
  processed job) has received \<^verbatim>\<open>on_protocol_file_print_started\<close> for its own file with
  size 0, \<^verbatim>\<open>get_progress()\<close> raises \<^verbatim>\<open>ZeroDivisionError\<close>.
\<close>

theorem C10_get_progress_zero_size:
  "(sd_size j = None \<or> last_pos j = None \<longrightarrow> SDFilePrintjob_get_progress j = Inr None) \<and>
   (last_pos j \<noteq> None \<longrightarrow>
      SDFilePrintjob_get_progress (on_protocol_file_print_started (filename j) 0 j) =
        Inl ZeroDivisionError)"
  by (auto simp: SDFilePrintjob_get_progress_def on_protocol_file_print_started_def py_div_def
      split: option.splits)

theorem C10_get_progress_zero_size_witness:
  "sd_size sd_job = None \<and> SDFilePrintjob_get_progress sd_job = Inr None \<and>
   last_pos sd_job = Some 0 \<and>
   SDFilePrintjob_get_progress (on_protocol_file_print_started ''job.gcode'' 0 sd_job) =
     Inl ZeroDivisionError"
  using C10_get_progress_zero_size [of sd_job]
  by (simp add: sd_job_facts)

end
